theory Spec2Isabelle
  imports Complex_Main
begin

section \<open>JavaScript strings\<close>

text \<open>
  A JavaScript string is a sequence of UTF-16 code units. The model uses \<^typ>\<open>string\<close>,
  read as a sequence of code units below 256 (the Latin-1 range); every pattern of the
  analyzer is written in ASCII. Numbers that hold \<open>Date.now()\<close>, counters and line
  numbers are integers or naturals; the sensitivities of the learning system are doubles
  in the source and exact reals here.
\<close>

definition is_space :: "char \<Rightarrow> bool" where
  \<comment> \<open>\<open>\s\<close> and the characters removed by \<open>trim()\<close>: TAB, LF, VT, FF, CR, SPACE, NBSP.\<close>
  "is_space c = (of_char c \<in> {9, 10, 11, 12, 13, 32, 160 :: nat})"

definition is_word :: "char \<Rightarrow> bool" where
  \<comment> \<open>\<open>\w\<close> is \<open>[A-Za-z0-9_]\<close>.\<close>
  "is_word c = (let n = (of_char c :: nat) in
     (97 \<le> n \<and> n \<le> 122) \<or> (65 \<le> n \<and> n \<le> 90) \<or> (48 \<le> n \<and> n \<le> 57) \<or> n = 95)"

definition lower_ascii :: "char \<Rightarrow> char" where
  "lower_ascii c =
     (let n = (of_char c :: nat) in if 65 \<le> n \<and> n \<le> 90 then char_of (n + 32) else c)"

definition trim :: "string \<Rightarrow> string" where
  "trim s = rev (dropWhile is_space (rev (dropWhile is_space s)))"

fun starts_with :: "string \<Rightarrow> string \<Rightarrow> bool" where
  "starts_with [] s = True"
| "starts_with (p # ps) [] = False"
| "starts_with (p # ps) (c # cs) = (p = c \<and> starts_with ps cs)"

fun str_includes :: "string \<Rightarrow> string \<Rightarrow> bool" where
  \<comment> \<open>\<open>s.includes(sub)\<close>, written \<open>str_includes sub s\<close>.\<close>
  "str_includes sub [] = (sub = [])"
| "str_includes sub (c # cs) = (starts_with sub (c # cs) \<or> str_includes sub cs)"

fun split_nl :: "string \<Rightarrow> string list" where
  \<comment> \<open>\<open>s.split('\n')\<close>: the empty string gives one empty line.\<close>
  "split_nl [] = [[]]"
| "split_nl (c # cs) =
     (if c = CHR 0x0A then [] # split_nl cs
      else (case split_nl cs of [] \<Rightarrow> [[c]] | l # ls \<Rightarrow> (c # l) # ls))"

definition count_char :: "char \<Rightarrow> string \<Rightarrow> int" where
  \<comment> \<open>\<open>(line.match(/c/g) || []).length\<close> for a one-character pattern.\<close>
  "count_char c s = int (length (filter (\<lambda>x. x = c) s))"

definition digit_char :: "int \<Rightarrow> char" where
  "digit_char d = ''0123456789'' ! nat d"

function digit_chars :: "int \<Rightarrow> string" where
  "digit_chars n =
     (if n < 10 then [digit_char n] else digit_chars (n div 10) @ [digit_char (n mod 10)])"
  by pat_completeness auto
termination
  by (relation "measure nat") auto

definition dec :: "int \<Rightarrow> string" where
  \<comment> \<open>The decimal rendering of an integer inside a template literal.\<close>
  "dec i = (if i < 0 then CHR ''-'' # digit_chars (- i) else digit_chars i)"

section \<open>Regular expressions\<close>

text \<open>
  The patterns of the analyzer use literals, the classes \<open>\s\<close>, \<open>\w\<close>, \<open>.\<close>, bracket
  classes, \<open>*\<close>, \<open>+\<close>, alternation, and the flag \<open>i\<close> next to ASCII literals only.
  \<open>rems r s\<close> lists the rests of \<open>s\<close> left by every way of matching \<open>r\<close> at the start
  of \<open>s\<close>; \<open>line.match(re)\<close> is truthy exactly when some match exists at some position.
\<close>

datatype cclass =
    Lit char
  | LitCI char
  | Space
  | WordCh
  | Dot
  | NoneOf "char list"
  | OneOf "char list"

fun cmatch :: "cclass \<Rightarrow> char \<Rightarrow> bool" where
  "cmatch (Lit c) x = (x = c)"
| "cmatch (LitCI c) x = (lower_ascii x = lower_ascii c)"
| "cmatch Space x = is_space x"
| "cmatch WordCh x = is_word x"
| "cmatch Dot x = (of_char x \<notin> {10, 13 :: nat})"
| "cmatch (NoneOf cs) x = (x \<notin> set cs)"
| "cmatch (OneOf cs) x = (x \<in> set cs)"

datatype regex = Eps | Atom cclass | Seq regex regex | Alt regex regex | Star regex

fun rems :: "regex \<Rightarrow> string \<Rightarrow> string list" where
  "rems Eps s = [s]"
| "rems (Atom c) s = (case s of [] \<Rightarrow> [] | x # xs \<Rightarrow> if cmatch c x then [xs] else [])"
| "rems (Seq a b) s = concat (map (rems b) (rems a s))"
| "rems (Alt a b) s = rems a s @ rems b s"
| "rems (Star a) s =
     s # concat (map (\<lambda>t. if length t < length s then rems (Star a) t else []) (rems a s))"

definition Plus :: "regex \<Rightarrow> regex" where
  "Plus r = Seq r (Star r)"

fun Str :: "string \<Rightarrow> regex" where
  "Str [] = Eps"
| "Str (c # cs) = Seq (Atom (Lit c)) (Str cs)"

fun StrCI :: "string \<Rightarrow> regex" where
  "StrCI [] = Eps"
| "StrCI (c # cs) = Seq (Atom (LitCI c)) (StrCI cs)"

fun seqs :: "regex list \<Rightarrow> regex" where
  "seqs [] = Eps"
| "seqs (r # rs) = Seq r (seqs rs)"

definition Sp :: regex where "Sp = Star (Atom Space)"

definition Ch :: "char \<Rightarrow> regex" where "Ch c = Atom (Lit c)"

definition re_match_at :: "regex \<Rightarrow> string \<Rightarrow> bool" where
  \<comment> \<open>A pattern that starts with \<open>^\<close>.\<close>
  "re_match_at r s = (rems r s \<noteq> [])"

fun re_test :: "regex \<Rightarrow> string \<Rightarrow> bool" where
  \<comment> \<open>A pattern without anchors, searched at every position.\<close>
  "re_test r [] = re_match_at r []"
| "re_test r (c # cs) = (re_match_at r (c # cs) \<or> re_test r cs)"

fun re_test_end :: "regex \<Rightarrow> string \<Rightarrow> bool" where
  \<comment> \<open>A pattern that ends with \<open>$\<close>.\<close>
  "re_test_end r [] = ([] \<in> set (rems r []))"
| "re_test_end r (c # cs) = ([] \<in> set (rems r (c # cs)) \<or> re_test_end r cs)"

section \<open>The code analyzer\<close>

datatype issue_type = Bug | Security | Performance | Style | Accessibility | CodeSmell

datatype severity_level = Critical | Warning | Info

fun type_str :: "issue_type \<Rightarrow> string" where
  "type_str Bug = ''bug''"
| "type_str Security = ''security''"
| "type_str Performance = ''performance''"
| "type_str Style = ''style''"
| "type_str Accessibility = ''accessibility''"
| "type_str CodeSmell = ''code-smell''"

text \<open>The optional field \<open>column\<close> of the interface is never assigned and is left out.\<close>

record CodeIssue =
  type :: issue_type
  severity :: severity_level
  line :: nat
  message :: string
  code :: string
  suggestion :: "string option"
  filePath :: string

record Document =
  uri :: string
  scheme :: string
  languageId :: string
  fileName :: string
  getText :: string

text \<open>
  \<open>lastAnalysisTime\<close>, a map from document to time, is declared by the class and never
  read or written; the rate limit uses the single number \<open>lastSuggestionTime\<close>.
\<close>

record analyzer_state =
  lastAnalysisTime :: "string \<rightharpoonup> int"
  lastSuggestionTime :: int

definition new_analyzer :: analyzer_state where
  "new_analyzer = \<lparr>lastAnalysisTime = Map.empty, lastSuggestionTime = 0\<rparr>"

subsection \<open>The patterns\<close>

definition re_null_access :: regex where
  \<comment> \<open>\<open>/\.\w+\s*[;)}]/\<close>\<close>
  "re_null_access = seqs [Ch CHR ''.'', Plus (Atom WordCh), Sp, Atom (OneOf '';)}'')]"

definition re_sql_concat :: regex where
  \<comment> \<open>\<open>/query\s*=\s*["'`].*\+\s*\w+|query\s*=\s*\w+\s*\+/i\<close>\<close>
  "re_sql_concat =
     Alt (seqs [StrCI ''query'', Sp, Ch CHR ''='', Sp, Atom (OneOf [CHR 0x22, CHR 0x27, CHR 0x60]),
                Star (Atom Dot), Ch CHR ''+'', Sp, Plus (Atom WordCh)])
         (seqs [StrCI ''query'', Sp, Ch CHR ''='', Sp, Plus (Atom WordCh), Sp, Ch CHR ''+''])"

definition re_xss :: regex where
  \<comment> \<open>\<open>/innerHTML\s*=|document\.write|eval\(/i\<close>\<close>
  "re_xss =
     Alt (seqs [StrCI ''innerHTML'', Sp, Ch CHR ''=''])
         (Alt (StrCI ''document.write'') (StrCI ''eval(''))"

definition re_console :: regex where
  \<comment> \<open>\<open>/console\.(log|debug|warn)/\<close>\<close>
  "re_console = Seq (Str ''console.'') (Alt (Str ''log'') (Alt (Str ''debug'') (Str ''warn'')))"

definition re_for :: regex where
  \<comment> \<open>\<open>/for\s*\(/\<close>\<close>
  "re_for = seqs [Str ''for'', Sp, Ch CHR ''('']"

definition re_promise :: regex where
  \<comment> \<open>\<open>/\.then\(|\.catch\(/\<close>\<close>
  "re_promise = Alt (Str ''.then('') (Str ''.catch('')"

definition re_py_sql :: regex where
  \<comment> \<open>\<open>/cursor\.execute\s*\(\s*["'f].*%\s*\w+/\<close>\<close>
  "re_py_sql =
     seqs [Str ''cursor.execute'', Sp, Ch CHR ''('', Sp, Atom (OneOf [CHR 0x22, CHR 0x27, CHR ''f'']),
           Star (Atom Dot), Ch CHR ''%'', Sp, Plus (Atom WordCh)]"

definition re_except :: regex where
  \<comment> \<open>\<open>/except\s*:$/\<close>, without the final anchor\<close>
  "re_except = seqs [Str ''except'', Sp, Ch CHR '':'']"

definition re_def :: regex where
  \<comment> \<open>\<open>/^def\s+\w+\s*\([^)]*\)\s*:/\<close>, without the initial anchor\<close>
  "re_def =
     seqs [Str ''def'', Plus (Atom Space), Plus (Atom WordCh), Sp, Ch CHR ''('',
           Star (Atom (NoneOf '')'')), Ch CHR '')'', Sp, Ch CHR '':'']"

definition re_img :: regex where
  \<comment> \<open>\<open>/<img[^>]*>/i\<close>\<close>
  "re_img = seqs [StrCI ''<img'', Star (Atom (NoneOf ''>'')), Ch CHR ''>'']"

definition re_alt :: regex where
  \<comment> \<open>\<open>/alt\s*=/i\<close>\<close>
  "re_alt = seqs [StrCI ''alt'', Sp, Ch CHR ''='']"

definition re_button :: regex where
  \<comment> \<open>\<open>/<button[^>]*>/i\<close>\<close>
  "re_button = seqs [StrCI ''<button'', Star (Atom (NoneOf ''>'')), Ch CHR ''>'']"

definition re_aria :: regex where
  \<comment> \<open>\<open>/aria-label\s*=|aria-labelledby\s*=/i\<close>\<close>
  "re_aria =
     Alt (seqs [StrCI ''aria-label'', Sp, Ch CHR ''=''])
         (seqs [StrCI ''aria-labelledby'', Sp, Ch CHR ''=''])"

definition re_inner_text :: regex where
  \<comment> \<open>\<open>/>[^<]+</\<close>\<close>
  "re_inner_text = seqs [Ch CHR ''>'', Plus (Atom (NoneOf ''<'')), Ch CHR ''<'']"

definition re_style :: regex where
  \<comment> \<open>\<open>/style\s*=/i\<close>\<close>
  "re_style = seqs [StrCI ''style'', Sp, Ch CHR ''='']"

definition re_todo :: regex where
  \<comment> \<open>\<open>/TODO|FIXME|HACK|XXX/i\<close>\<close>
  "re_todo = Alt (StrCI ''TODO'') (Alt (StrCI ''FIXME'') (Alt (StrCI ''HACK'') (StrCI ''XXX'')))"

fun optional_chain :: "string \<Rightarrow> string" where
  \<comment> \<open>\<open>s.replace(/\.(\w+)/, '?.$1')\<close>: a question mark before the first dot that a word
      character follows.\<close>
  "optional_chain [] = []"
| "optional_chain (c # cs) =
     (if c = CHR ''.'' \<and> (case cs of [] \<Rightarrow> False | d # _ \<Rightarrow> is_word d)
      then CHR ''?'' # c # cs else c # optional_chain cs)"

subsection \<open>Nested loops\<close>

definition loop_open :: "string \<Rightarrow> bool" where
  \<comment> \<open>\<open>line.trim().match(/for\s*\(/)\<close>\<close>
  "loop_open l = re_test re_for (trim l)"

definition brace_delta :: "string \<Rightarrow> int" where
  \<comment> \<open>What one line adds to \<open>braceCount\<close>: its open braces minus its close braces.\<close>
  "brace_delta l = count_char CHR ''{'' l - count_char CHR ''}'' l"

fun nested_scan :: "string list \<Rightarrow> int \<Rightarrow> bool \<Rightarrow> bool" where
  \<comment> \<open>The loop of \<open>hasNestedLoop\<close> over the lines of its window, with \<open>braceCount\<close> and
      \<open>foundFor\<close>.\<close>
  "nested_scan [] braceCount foundFor = False"
| "nested_scan (l # ls) braceCount foundFor =
     (if loop_open l
      then (if foundFor \<and> braceCount = 1 then True
            else nested_scan ls (braceCount + brace_delta l) True)
      else nested_scan ls (braceCount + brace_delta l) foundFor)"

definition hasNestedLoop :: "string \<Rightarrow> nat \<Rightarrow> bool" where
  \<comment> \<open>\<open>src\<close> is the parameter \<open>code\<close> of the source.\<close>
  "hasNestedLoop src startLine = nested_scan (take 20 (drop startLine (split_nl src))) 0 False"

subsection \<open>The rules of each language\<close>

text \<open>
  In the rule functions \<open>src\<close> is the parameter \<open>code\<close> of the source and \<open>l\<close> its
  \<open>line\<close>; \<open>index\<close> is the index that \<open>forEach\<close> passes.
\<close>

definition js_line_issues :: "string \<Rightarrow> string \<Rightarrow> nat \<Rightarrow> string \<Rightarrow> CodeIssue list" where
  \<open>js_line_issues src path index l =
     (let lineNum = index + 1 in
      (if re_test re_null_access l \<and> \<not> str_includes ''?.'' l \<and> \<not> str_includes ''||'' l
            \<and> \<not> str_includes ''if'' l
       then [\<lparr>type = Bug, severity = Warning, line = lineNum,
              message = ''Potential null/undefined access without optional chaining or null check'',
              code = trim l,
              suggestion = Some (''Consider using optional chaining (?.) or adding a null check: ''
                                 @ optional_chain (trim l)),
              filePath = path\<rparr>]
       else []) @
      (if re_test re_sql_concat l
       then [\<lparr>type = Security, severity = Critical, line = lineNum,
              message = ''Potential SQL injection vulnerability detected'',
              code = trim l,
              suggestion = Some ''Use parameterized queries or prepared statements instead of string concatenation'',
              filePath = path\<rparr>]
       else []) @
      (if re_test re_xss l
       then [\<lparr>type = Security, severity = Warning, line = lineNum,
              message = ''Potential XSS vulnerability - dangerous DOM manipulation detected'',
              code = trim l,
              suggestion = Some ''Use textContent instead of innerHTML, or sanitize user input'',
              filePath = path\<rparr>]
       else []) @
      (if re_test re_console l \<and> \<not> str_includes ''test'' path
       then [\<lparr>type = Style, severity = Info, line = lineNum,
              message = ''Console.log statement found - consider removing for production'',
              code = trim l,
              suggestion = Some ''Remove console.log or use a proper logging library'',
              filePath = path\<rparr>]
       else []) @
      (if loop_open l \<and> hasNestedLoop src index
       then [\<lparr>type = Performance, severity = Warning, line = lineNum,
              message = ''Nested loop detected - potential O(n'' @ [char_of (178 :: nat)] @ '') complexity'',
              code = trim l,
              suggestion = Some ''Consider using a Map or Set for O(1) lookups instead of nested loops'',
              filePath = path\<rparr>]
       else []) @
      (if re_test re_promise l \<and> \<not> str_includes ''async'' src
       then [\<lparr>type = Style, severity = Info, line = lineNum,
              message = ''Promise chain detected - consider using async/await for better readability'',
              code = trim l,
              suggestion = Some ''Convert to async/await syntax for better readability and error handling'',
              filePath = path\<rparr>]
       else []))\<close>

definition analyzeJavaScript :: "string \<Rightarrow> string \<Rightarrow> CodeIssue list" where
  "analyzeJavaScript src path =
     concat (map (\<lambda>(index, l). js_line_issues src path index l) (enumerate 0 (split_nl src)))"

definition py_line_issues :: "string \<Rightarrow> nat \<Rightarrow> string \<Rightarrow> CodeIssue list" where
  \<open>py_line_issues path index l =
     (let lineNum = index + 1 in
      (if re_test re_py_sql l
       then [\<lparr>type = Security, severity = Critical, line = lineNum,
              message = ''Potential SQL injection - string formatting in SQL query'',
              code = trim l,
              suggestion = Some ''Use parameterized queries: cursor.execute("SELECT * FROM table WHERE id = ?", (id,))'',
              filePath = path\<rparr>]
       else []) @
      (if trim l = ''except:'' \<or> re_test_end re_except (trim l)
       then [\<lparr>type = Bug, severity = Warning, line = lineNum,
              message = ''Bare except clause catches all exceptions including system exits'',
              code = trim l,
              suggestion = Some ''Use specific exception types: except ValueError: or except Exception:'',
              filePath = path\<rparr>]
       else []) @
      (if re_match_at re_def l \<and> \<not> str_includes ''->'' l \<and> \<not> str_includes '':'' l
       then [\<lparr>type = Style, severity = Info, line = lineNum,
              message = ''Function missing type hints'',
              code = trim l,
              suggestion = Some ''Add type hints for better code documentation and IDE support'',
              filePath = path\<rparr>]
       else []))\<close>

definition analyzePython :: "string \<Rightarrow> string \<Rightarrow> CodeIssue list" where
  "analyzePython src path =
     concat (map (\<lambda>(index, l). py_line_issues path index l) (enumerate 0 (split_nl src)))"

definition html_line_issues :: "string \<Rightarrow> nat \<Rightarrow> string \<Rightarrow> CodeIssue list" where
  \<open>html_line_issues path index l =
     (let lineNum = index + 1 in
      (if re_test re_img l \<and> \<not> re_test re_alt l
       then [\<lparr>type = Accessibility, severity = Warning, line = lineNum,
              message = ''Image missing alt attribute - accessibility issue'',
              code = trim l,
              suggestion = Some ''Add alt attribute: <img src="..." alt="descriptive text">'',
              filePath = path\<rparr>]
       else []) @
      (if re_test re_button l \<and> \<not> re_test re_aria l \<and> \<not> re_test re_inner_text l
       then [\<lparr>type = Accessibility, severity = Info, line = lineNum,
              message = ''Button may need aria-label for screen readers'',
              code = trim l,
              suggestion = Some ''Add aria-label if button text is not descriptive enough'',
              filePath = path\<rparr>]
       else []) @
      (if re_test re_style l
       then [\<lparr>type = Style, severity = Info, line = lineNum,
              message = ''Inline styles detected - consider using CSS classes'',
              code = trim l,
              suggestion = Some ''Move styles to external stylesheet or style tag for better maintainability'',
              filePath = path\<rparr>]
       else []))\<close>

definition analyzeHTML :: "string \<Rightarrow> string \<Rightarrow> CodeIssue list" where
  "analyzeHTML src path =
     concat (map (\<lambda>(index, l). html_line_issues path index l) (enumerate 0 (split_nl src)))"

definition generic_line_issues :: "string \<Rightarrow> nat \<Rightarrow> string \<Rightarrow> CodeIssue list" where
  "generic_line_issues path index l =
     (let lineNum = index + 1 in
      (if re_test re_todo l
       then [\<lparr>type = CodeSmell, severity = Info, line = lineNum,
              message = ''TODO/FIXME comment found'',
              code = trim l,
              suggestion = Some ''Consider addressing this before merging to production'',
              filePath = path\<rparr>]
       else []) @
      (if length l > 120
       then [\<lparr>type = Style, severity = Info, line = lineNum,
              message = ''Line exceeds 120 characters - consider breaking it up'',
              code = take 100 (trim l) @ ''...'',
              suggestion = Some ''Break long lines for better readability'',
              filePath = path\<rparr>]
       else []))"

definition analyzeGeneric :: "string \<Rightarrow> string \<Rightarrow> string \<Rightarrow> CodeIssue list" where
  "analyzeGeneric src path lang =
     concat (map (\<lambda>(index, l). generic_line_issues path index l) (enumerate 0 (split_nl src)))"

subsection \<open>The rate-limited entry point\<close>

definition analyze_by_language :: "Document \<Rightarrow> CodeIssue list" where
  \<comment> \<open>The \<open>switch\<close> of \<open>CodeAnalyzer.analyzeDocument\<close> on \<open>languageId\<close>.\<close>
  "analyze_by_language document =
     (let txt = getText document; lang = languageId document in
      if lang = ''javascript'' \<or> lang = ''typescript''
        then analyzeJavaScript txt (fileName document)
      else if lang = ''python''
        then analyzePython txt (fileName document)
      else if lang = ''html'' \<or> lang = ''vue'' \<or> lang = ''svelte''
        then analyzeHTML txt (fileName document)
      else analyzeGeneric txt (fileName document) lang)"

definition analyzeDocument ::
  "bool \<Rightarrow> int \<Rightarrow> Document \<Rightarrow> analyzer_state \<Rightarrow> CodeIssue list \<times> analyzer_state" where
  \<comment> \<open>\<open>CodeAnalyzer.analyzeDocument\<close>; \<open>proactive\<close> is the setting \<open>proactiveInterruptions\<close>,
      \<open>now\<close> the value of \<open>Date.now()\<close>.\<close>
  "analyzeDocument proactive now document st =
     (if \<not> proactive \<or> scheme document \<noteq> ''file'' then ([], st)
      else if now - lastSuggestionTime st < 20000 then ([], st)
      else (analyze_by_language document, st\<lparr>lastSuggestionTime := now\<rparr>))"

section \<open>Suggestions, responses and interventions\<close>

record SuggestionContext =
  ctx_filePath :: string
  lineNumber :: nat
  ctx_code :: string
  issueType :: issue_type
  ctx_severity :: severity_level
  description :: string
  ctx_suggestion :: "string option"

definition convertToSuggestionContext :: "CodeIssue \<Rightarrow> SuggestionContext" where
  "convertToSuggestionContext issue =
     \<lparr>ctx_filePath = filePath issue, lineNumber = line issue, ctx_code = code issue,
      issueType = type issue, ctx_severity = severity issue, description = message issue,
      ctx_suggestion = suggestion issue\<rparr>"

datatype tone_kind = Direct | Supportive | Questioning | Urgent | Gentle

record PersonalityResponse =
  resp_message :: string
  icon :: string
  tone :: tone_kind
  showCodeExample :: "bool option"
  codeExample :: "string option"

text \<open>
  The optional flags \<open>dismissed\<close> and \<open>accepted\<close> are unset (\<open>None\<close>) when an
  intervention is created.
\<close>

record Intervention =
  iv_id :: string
  iv_context :: SuggestionContext
  response :: PersonalityResponse
  iv_timestamp :: int
  dismissed :: "bool option"
  accepted :: "bool option"

section \<open>The learning system\<close>

datatype feedback_action = Accepted | Dismissed | Modified

datatype reaction = Preferred | Rejected | Neutral

record UserFeedback =
  interventionId :: string
  action :: feedback_action
  feedback :: "string option"
  timestamp :: int
  fb_issueType :: issue_type
  personality :: string

record LearningPattern =
  pattern :: string
  lp_issueType :: issue_type
  userReaction :: reaction
  count :: nat
  lastUpdated :: int

text \<open>
  The keys of \<open>issueTypeSensitivity\<close> are the issue types of interventions, one of the six
  literals of the union type. Its values are doubles in the source; here they are reals,
  so \<open>0.1\<close>, \<open>0.05\<close>, \<open>0.3\<close> and \<open>0.5\<close> are exact and sums are not rounded.
\<close>

record AdaptationRules =
  skipPatterns :: "string list"
  preferredPatterns :: "string list"
  personalityAdjustments :: "string \<rightharpoonup> real"
  issueTypeSensitivity :: "issue_type \<rightharpoonup> real"

text \<open>
  The in-memory state of \<open>LearningSystem\<close>. The writes to the editor's \<open>globalState\<close>
  (\<open>saveLearningData\<close>, \<open>saveAdaptationRules\<close>) change nothing that the class reads
  back during a session and are not part of the state.
\<close>

record learning_state =
  feedbackHistory :: "UserFeedback list"
  learningPatterns :: "string \<rightharpoonup> LearningPattern"
  adaptationRules :: AdaptationRules

definition empty_rules :: AdaptationRules where
  "empty_rules = \<lparr>skipPatterns = [], preferredPatterns = [],
                  personalityAdjustments = Map.empty, issueTypeSensitivity = Map.empty\<rparr>"

definition new_learning :: learning_state where
  "new_learning = \<lparr>feedbackHistory = [], learningPatterns = Map.empty, adaptationRules = empty_rules\<rparr>"

definition extractPattern :: "Intervention \<Rightarrow> string" where
  "extractPattern iv =
     type_str (issueType (iv_context iv)) @ '':'' @ take 30 (ctx_code (iv_context iv))"

definition issuePattern :: "CodeIssue \<Rightarrow> string" where
  \<comment> \<open>The key that \<open>shouldShowIssue\<close> builds from an issue.\<close>
  "issuePattern issue = type_str (type issue) @ '':'' @ take 30 (code issue)"

definition updateLearningPatterns ::
  "int \<Rightarrow> Intervention \<Rightarrow> feedback_action \<Rightarrow> learning_state \<Rightarrow> learning_state" where
  "updateLearningPatterns now iv act st =
     (let pat = extractPattern iv;
          existing = (case learningPatterns st pat of
                        Some e \<Rightarrow> e
                      | None \<Rightarrow> \<lparr>pattern = pat, lp_issueType = issueType (iv_context iv),
                                  userReaction = Neutral, count = 0, lastUpdated = now\<rparr>);
          existing' = existing\<lparr>count := count existing + 1, lastUpdated := now,
                        userReaction := (case act of Accepted \<Rightarrow> Preferred
                                         | Dismissed \<Rightarrow> Rejected | Modified \<Rightarrow> Neutral)\<rparr>
      in st\<lparr>learningPatterns := (learningPatterns st)(pat \<mapsto> existing')\<rparr>)"

definition sensitivity_or_one :: "(issue_type \<rightharpoonup> real) \<Rightarrow> issue_type \<Rightarrow> real" where
  \<comment> \<open>\<open>m[k] || 1.0\<close>: a missing entry and the number 0 are both falsy.\<close>
  "sensitivity_or_one m k = (case m k of None \<Rightarrow> 1 | Some v \<Rightarrow> if v = 0 then 1 else v)"

definition updateAdaptationRules ::
  "Intervention \<Rightarrow> feedback_action \<Rightarrow> learning_state \<Rightarrow> learning_state" where
  "updateAdaptationRules iv act st =
     (let pat = extractPattern iv;
          k = issueType (iv_context iv);
          rules = adaptationRules st;
          rules1 =
            (if act = Dismissed then
               (let patternCount = (case learningPatterns st pat of None \<Rightarrow> 0 | Some p \<Rightarrow> count p)
                in if patternCount \<ge> 3 \<and> pat \<notin> set (skipPatterns rules)
                   then rules\<lparr>skipPatterns := skipPatterns rules @ [pat]\<rparr> else rules)
             else if act = Accepted then
               (if pat \<notin> set (preferredPatterns rules)
                then rules\<lparr>preferredPatterns := preferredPatterns rules @ [pat]\<rparr> else rules)
             else rules);
          m = issueTypeSensitivity rules1;
          m1 = (if m k = None \<or> m k = Some 0 then m(k \<mapsto> 1) else m);
          cur = sensitivity_or_one m k;
          m2 = (if act = Dismissed then m1(k \<mapsto> max (3 / 10) (cur - 1 / 10))
                else if act = Accepted then m1(k \<mapsto> min 1 (cur + 5 / 100))
                else m1)
      in st\<lparr>adaptationRules := rules1\<lparr>issueTypeSensitivity := m2\<rparr>\<rparr>)"

definition recordFeedback ::
  "int \<Rightarrow> Intervention \<Rightarrow> feedback_action \<Rightarrow> string option \<Rightarrow> learning_state \<Rightarrow> learning_state" where
  "recordFeedback now iv act fb st =
     (let userFeedback = \<lparr>interventionId = iv_id iv, action = act, feedback = fb, timestamp = now,
                           fb_issueType = issueType (iv_context iv),
                           personality = take 50 (resp_message (response iv))\<rparr>;
          st1 = st\<lparr>feedbackHistory := feedbackHistory st @ [userFeedback]\<rparr>;
          st2 = updateLearningPatterns now iv act st1;
          st3 = updateAdaptationRules iv act st2
      in if length (feedbackHistory st3) > 1000
         then st3\<lparr>feedbackHistory :=
                    drop (length (feedbackHistory st3) - 1000) (feedbackHistory st3)\<rparr>
         else st3)"

definition shouldShowIssue :: "CodeIssue \<Rightarrow> learning_state \<Rightarrow> bool" where
  "shouldShowIssue issue st =
     (if issuePattern issue \<in> set (skipPatterns (adaptationRules st)) then False
      else if sensitivity_or_one (issueTypeSensitivity (adaptationRules st)) (type issue) < 5 / 10
              \<and> severity issue \<noteq> Critical then False
      else True)"

record learning_stats =
  totalFeedback :: nat
  stats_accepted :: nat
  stats_dismissed :: nat
  stats_modified :: nat

definition getLearningStats :: "learning_state \<Rightarrow> learning_stats" where
  "getLearningStats st =
     \<lparr>totalFeedback = length (feedbackHistory st),
      stats_accepted = length (filter (\<lambda>f. action f = Accepted) (feedbackHistory st)),
      stats_dismissed = length (filter (\<lambda>f. action f = Dismissed) (feedbackHistory st)),
      stats_modified = length (filter (\<lambda>f. action f = Modified) (feedbackHistory st))\<rparr>"

definition resetLearningData :: "learning_state \<Rightarrow> learning_state" where
  "resetLearningData st =
     \<lparr>feedbackHistory = [], learningPatterns = Map.empty,
      adaptationRules = \<lparr>skipPatterns = [], preferredPatterns = [],
                         personalityAdjustments = Map.empty, issueTypeSensitivity = Map.empty\<rparr>\<rparr>"

fun record_all ::
  "(int \<times> Intervention \<times> feedback_action \<times> string option) list \<Rightarrow> learning_state \<Rightarrow> learning_state" where
  \<comment> \<open>A sequence of \<open>recordFeedback\<close> calls, oldest first.\<close>
  "record_all [] st = st"
| "record_all ((now, iv, act, fb) # evs) st = record_all evs (recordFeedback now iv act fb st)"

section \<open>The core\<close>

record Config =
  proactiveInterruptions :: bool
  autoReviewOnSave :: bool
  maxSuggestionsPerMinute :: int
  interventionFrequency :: string
  useAIEnhancement :: bool

text \<open>
  What the core calls outside itself: the current personality's \<open>respondToIssue\<close>, the AI
  service (\<open>None\<close> is a rejected promise), and the readings of \<open>Date.now()\<close> and
  \<open>Math.random()\<close> taken for the \<open>k\<close>-th intervention created by a call.
\<close>

record Env =
  respondToIssue :: "SuggestionContext \<Rightarrow> PersonalityResponse"
  aiConfigured :: bool
  analyzeCodeWithAI :: "string \<Rightarrow> string \<Rightarrow> issue_type \<Rightarrow> string option"
  clock :: "nat \<Rightarrow> int"
  random :: "nat \<Rightarrow> string"

text \<open>
  \<open>timers\<close> holds the callbacks handed to \<open>setTimeout\<close>: the time at which each fires
  and the document it analyzes. The core keeps no handle of a timer and never clears one.
  The command \<open>dmentor.onInterventionCreated\<close>, sent to the user interface for each new
  intervention, changes no state of the core and is left out.
\<close>

record core_state =
  interventions :: "Intervention list"
  isActive :: bool
  focusMode :: bool
  lastDocumentChange :: "string \<rightharpoonup> int"
  timers :: "(int \<times> Document) list"
  analyzer :: analyzer_state
  learningSystem :: learning_state

definition new_core :: core_state where
  "new_core = \<lparr>interventions = [], isActive = True, focusMode = False,
               lastDocumentChange = Map.empty, timers = [],
               analyzer = new_analyzer, learningSystem = new_learning\<rparr>"

definition debounceDelay :: int where
  "debounceDelay = 1000"

definition onDocumentChange :: "Config \<Rightarrow> int \<Rightarrow> Document \<Rightarrow> core_state \<Rightarrow> core_state" where
  "onDocumentChange cfg now document st =
     (if \<not> isActive st \<or> focusMode st then st
      else if \<not> proactiveInterruptions cfg then st
      else
        (let lastChange = (case lastDocumentChange st (uri document) of None \<Rightarrow> 0 | Some v \<Rightarrow> v)
         in if now - lastChange < debounceDelay then st
            else st\<lparr>lastDocumentChange := (lastDocumentChange st)(uri document \<mapsto> now),
                    timers := timers st @ [(now + debounceDelay, document)]\<rparr>))"

fun changes :: "Config \<Rightarrow> int list \<Rightarrow> Document \<Rightarrow> core_state \<Rightarrow> core_state" where
  \<comment> \<open>Change events of one document at the given times, oldest first.\<close>
  "changes cfg [] document st = st"
| "changes cfg (t # ts) document st = changes cfg ts document (onDocumentChange cfg t document st)"

definition js_slice0 :: "'a list \<Rightarrow> int \<Rightarrow> 'a list" where
  \<comment> \<open>\<open>xs.slice(0, n)\<close>: a negative end counts from the end of the array.\<close>
  "js_slice0 xs n = (if 0 \<le> n then take (nat n) xs else take (length xs - nat (- n)) xs)"

definition new_id :: "Env \<Rightarrow> nat \<Rightarrow> string" where
  "new_id env k = dec (clock env k) @ ''-'' @ random env k"

definition createIntervention ::
  "Env \<Rightarrow> Config \<Rightarrow> nat \<Rightarrow> CodeIssue \<Rightarrow> Document \<Rightarrow> core_state \<Rightarrow> core_state" where
  "createIntervention env cfg k issue document st =
     (let ctx = convertToSuggestionContext issue;
          enhancedSuggestion =
            (if useAIEnhancement cfg \<and> aiConfigured env then
               (case analyzeCodeWithAI env (getText document) (languageId document) (type issue) of
                  None \<Rightarrow> ctx_suggestion ctx
                | Some aiAnalysis \<Rightarrow> if aiAnalysis \<noteq> [] then Some aiAnalysis else ctx_suggestion ctx)
             else ctx_suggestion ctx);
          ctx' = (case enhancedSuggestion of
                    None \<Rightarrow> ctx
                  | Some e \<Rightarrow> if e \<noteq> [] then ctx\<lparr>ctx_suggestion := Some e\<rparr> else ctx);
          intervention = \<lparr>iv_id = new_id env k, iv_context = ctx',
                           response = respondToIssue env ctx', iv_timestamp = clock env k,
                           dismissed = None, accepted = None\<rparr>
      in st\<lparr>interventions := interventions st @ [intervention]\<rparr>)"

definition frequency_filter :: "string \<Rightarrow> CodeIssue list \<Rightarrow> CodeIssue list" where
  \<comment> \<open>The filter of \<open>DMentorCore.analyzeDocument\<close> on the setting \<open>interventionFrequency\<close>.\<close>
  "frequency_filter frequency issues =
     (if frequency = ''minimal'' then filter (\<lambda>i. severity i = Critical) issues
      else if frequency = ''balanced'' then filter (\<lambda>i. severity i \<noteq> Info \<or> type i = Security) issues
      else issues)"

definition core_analyzeDocument ::
  "Env \<Rightarrow> Config \<Rightarrow> int \<Rightarrow> Document \<Rightarrow> core_state \<Rightarrow> core_state" where
  \<comment> \<open>\<open>DMentorCore.analyzeDocument\<close>\<close>
  "core_analyzeDocument env cfg now document st =
     (let (issues, a) = analyzeDocument (proactiveInterruptions cfg) now document (analyzer st);
          st1 = st\<lparr>analyzer := a\<rparr>
      in if issues = [] then st1
         else
           (let shown = filter (\<lambda>issue. shouldShowIssue issue (learningSystem st1)) issues;
                filteredIssues = frequency_filter (interventionFrequency cfg) shown;
                limitedIssues = js_slice0 filteredIssues (maxSuggestionsPerMinute cfg)
            in fold (\<lambda>(k, issue). createIntervention env cfg k issue document)
                 (enumerate 0 limitedIssues) st1))"

definition onDocumentSave :: "Env \<Rightarrow> Config \<Rightarrow> int \<Rightarrow> Document \<Rightarrow> core_state \<Rightarrow> core_state" where
  "onDocumentSave env cfg now document st =
     (if autoReviewOnSave cfg \<and> \<not> focusMode st then core_analyzeDocument env cfg now document st
      else st)"

definition getInterventions :: "core_state \<Rightarrow> Intervention list" where
  "getInterventions st = filter (\<lambda>i. dismissed i \<noteq> Some True) (interventions st)"

definition requestReview ::
  "Env \<Rightarrow> Config \<Rightarrow> int \<Rightarrow> Document option \<Rightarrow> Document option \<Rightarrow> core_state
     \<Rightarrow> Intervention list \<times> core_state" where
  \<comment> \<open>\<open>active\<close> is the document of the active editor, if there is one.\<close>
  "requestReview env cfg now document active st =
     (case (case document of Some d \<Rightarrow> Some d | None \<Rightarrow> active) of
        None \<Rightarrow> ([], st)
      | Some doc \<Rightarrow>
          (let (issues, a) = analyzeDocument (proactiveInterruptions cfg) now doc (analyzer st);
               new = map (\<lambda>(k, issue).
                            \<lparr>iv_id = new_id env k,
                             iv_context = convertToSuggestionContext issue,
                             response = respondToIssue env (convertToSuggestionContext issue),
                             iv_timestamp = clock env k,
                             dismissed = None, accepted = None\<rparr>)
                         (enumerate 0 issues)
           in (new, st\<lparr>analyzer := a, interventions := interventions st @ new\<rparr>)))"

fun update_first :: "string \<Rightarrow> (Intervention \<Rightarrow> Intervention) \<Rightarrow> Intervention list \<Rightarrow> Intervention list" where
  \<comment> \<open>The mutation of the object that \<open>find\<close> returns: the first one with the id.\<close>
  "update_first ident f [] = []"
| "update_first ident f (i # rest) =
     (if iv_id i = ident then f i # rest else i # update_first ident f rest)"

definition dismissIntervention ::
  "int \<Rightarrow> string \<Rightarrow> string option \<Rightarrow> core_state \<Rightarrow> core_state" where
  "dismissIntervention now ident fb st =
     (case find (\<lambda>i. iv_id i = ident) (interventions st) of
        None \<Rightarrow> st
      | Some intervention \<Rightarrow>
          st\<lparr>interventions :=
               update_first ident (\<lambda>i. i\<lparr>dismissed := Some True\<rparr>) (interventions st),
             learningSystem :=
               recordFeedback now (intervention\<lparr>dismissed := Some True\<rparr>) Dismissed fb
                 (learningSystem st)\<rparr>)"

definition acceptIntervention :: "int \<Rightarrow> string \<Rightarrow> core_state \<Rightarrow> core_state" where
  "acceptIntervention now ident st =
     (case find (\<lambda>i. iv_id i = ident) (interventions st) of
        None \<Rightarrow> st
      | Some intervention \<Rightarrow>
          st\<lparr>interventions :=
               update_first ident (\<lambda>i. i\<lparr>accepted := Some True\<rparr>) (interventions st),
             learningSystem :=
               recordFeedback now (intervention\<lparr>accepted := Some True\<rparr>) Accepted None
                 (learningSystem st)\<rparr>)"

section \<open>Auxiliary definitions for the statements\<close>

definition pattern_count :: "learning_state \<Rightarrow> string \<Rightarrow> nat" where
  \<comment> \<open>\<open>learningPatterns.get(K)?.count || 0\<close>\<close>
  "pattern_count st K = (case learningPatterns st K of None \<Rightarrow> 0 | Some p \<Rightarrow> count p)"



subsection \<open>Sample data\<close>

definition demo_issue :: CodeIssue where
  "demo_issue = \<lparr>type = Security, severity = Critical, line = 1,
                  message = ''Potential SQL injection vulnerability detected'',
                  code = ''query = a + b'',
                  suggestion = None, filePath = ''a.js''\<rparr>"

definition demo_response :: PersonalityResponse where
  "demo_response = \<lparr>resp_message = ''Check this'', icon = ''!'', tone = Direct,
                     showCodeExample = None, codeExample = None\<rparr>"

definition demo_iv :: Intervention where
  "demo_iv = \<lparr>iv_id = ''100000-0.5'', iv_context = convertToSuggestionContext demo_issue,
               response = demo_response, iv_timestamp = 100000,
               dismissed = None, accepted = None\<rparr>"

definition three_dismissals :: "(int \<times> Intervention \<times> feedback_action \<times> string option) list" where
  "three_dismissals =
     [(1, demo_iv, Dismissed, None), (2, demo_iv, Dismissed, None), (3, demo_iv, Dismissed, None)]"

definition doc_a :: Document where
  "doc_a = \<lparr>uri = ''file:///a.txt'', scheme = ''file'', languageId = ''plaintext'',
             fileName = ''/a.txt'', getText = ''// TODO: first''\<rparr>"

definition doc_b :: Document where
  "doc_b = \<lparr>uri = ''file:///b.txt'', scheme = ''file'', languageId = ''plaintext'',
             fileName = ''/b.txt'', getText = ''// FIXME: second''\<rparr>"

definition demo_cfg :: Config where
  "demo_cfg = \<lparr>proactiveInterruptions = True, autoReviewOnSave = True,
                maxSuggestionsPerMinute = 3, interventionFrequency = ''balanced'',
                useAIEnhancement = False\<rparr>"

definition minimal_cfg :: Config where
  "minimal_cfg = demo_cfg\<lparr>interventionFrequency := ''minimal''\<rparr>"

definition demo_env :: Env where
  "demo_env = \<lparr>respondToIssue = (\<lambda>ctx. demo_response), aiConfigured = False,
                analyzeCodeWithAI = (\<lambda>txt lang k. None),
                clock = (\<lambda>k. 100000 + int k), random = (\<lambda>k. ''0.5'')\<rparr>"

definition reviewed_core :: core_state where
  "reviewed_core = snd (requestReview demo_env demo_cfg 100000 (Some doc_a) None new_core)"

definition reviewed_iv :: Intervention where
  "reviewed_iv = hd (interventions reviewed_core)"

definition nested_flags :: "string \<Rightarrow> string \<Rightarrow> nat list" where
  \<comment> \<open>The line numbers of the issues \<open>performance\<close>/\<open>warning\<close> that \<open>analyzeJavaScript\<close> reports.\<close>
  "nested_flags src path =
     map line (filter (\<lambda>x. type x = Performance \<and> severity x = Warning) (analyzeJavaScript src path))"

definition js_nested :: string where
  "js_nested = ''for (a) {'' @ [CHR 0x0A] @ '' for (b) {'' @ [CHR 0x0A] @ ''}'' @ [CHR 0x0A] @ ''}''"

definition depth :: "string list \<Rightarrow> int" where
  \<comment> \<open>The running brace depth after the given lines.\<close>
  "depth ls = sum_list (map brace_delta ls)"

section \<open>The learning system: suppression, sensitivity, statistics\<close>

lemma skip_recordFeedback_mono:
  "K \<in> set (skipPatterns (adaptationRules st)) \<Longrightarrow>
   K \<in> set (skipPatterns (adaptationRules (recordFeedback now iv act fb st)))"
  by (simp add: recordFeedback_def updateAdaptationRules_def updateLearningPatterns_def Let_def)

lemma skip_record_all_mono:
  "K \<in> set (skipPatterns (adaptationRules st)) \<Longrightarrow>
   K \<in> set (skipPatterns (adaptationRules (record_all evs st)))"
  by (induction evs st rule: record_all.induct) (simp_all add: skip_recordFeedback_mono)

lemma count_recordFeedback:
  "pattern_count (recordFeedback now iv act fb st) (extractPattern iv)
     = Suc (pattern_count st (extractPattern iv))"
  by (simp add: pattern_count_def recordFeedback_def updateAdaptationRules_def
      updateLearningPatterns_def Let_def split: option.splits)

lemma dismiss_skips:
  "2 \<le> pattern_count st (extractPattern iv) \<Longrightarrow>
   extractPattern iv \<in> set (skipPatterns (adaptationRules (recordFeedback now iv Dismissed fb st)))"
  by (simp add: pattern_count_def recordFeedback_def updateAdaptationRules_def
      updateLearningPatterns_def Let_def split: option.splits)

lemma skipped_not_shown:
  "issuePattern issue \<in> set (skipPatterns (adaptationRules st)) \<Longrightarrow> \<not> shouldShowIssue issue st"
  by (simp add: shouldShowIssue_def)

lemma accept_prefers:
  "extractPattern iv \<in> set (preferredPatterns (adaptationRules (recordFeedback now iv Accepted fb st)))"
  by (simp add: recordFeedback_def updateAdaptationRules_def updateLearningPatterns_def Let_def)

lemma demo_pattern: "extractPattern demo_iv = ''security:query = a + b''"
  by (simp add: extractPattern_def demo_iv_def convertToSuggestionContext_def demo_issue_def)

lemma demo_issue_pattern: "issuePattern demo_issue = ''security:query = a + b''"
  by (simp add: issuePattern_def demo_issue_def)

text \<open>
  Claim C1. Three consecutive feedback events with action \<open>dismissed\<close> on interventions
  whose pattern key is \<open>K\<close>, from any state of the learning system, leave \<open>K\<close> in
  \<open>skipPatterns\<close>; after any further feedback events \<open>shouldShowIssue\<close> is false for every
  issue whose pattern key is \<open>K\<close>, whatever its severity.
\<close>

theorem three_dismissals_suppress:
  assumes "extractPattern iv1 = K" and "extractPattern iv2 = K" and "extractPattern iv3 = K"
    and "issuePattern issue = K"
  shows "K \<in> set (skipPatterns (adaptationRules
           (record_all [(t1, iv1, Dismissed, f1), (t2, iv2, Dismissed, f2), (t3, iv3, Dismissed, f3)] st)))
       \<and> \<not> shouldShowIssue issue
           (record_all evs
             (record_all [(t1, iv1, Dismissed, f1), (t2, iv2, Dismissed, f2), (t3, iv3, Dismissed, f3)] st))"
proof -
  let ?s1 = "recordFeedback t1 iv1 Dismissed f1 st"
  let ?s2 = "recordFeedback t2 iv2 Dismissed f2 ?s1"
  let ?s3 = "recordFeedback t3 iv3 Dismissed f3 ?s2"
  have "1 \<le> pattern_count ?s1 K"
    using count_recordFeedback [of t1 iv1 Dismissed f1 st] assms(1) by simp
  then have "2 \<le> pattern_count ?s2 K"
    using count_recordFeedback [of t2 iv2 Dismissed f2 ?s1] assms(2) by simp
  then have "K \<in> set (skipPatterns (adaptationRules ?s3))"
    using dismiss_skips [of ?s2 iv3 t3 f3] assms(3) by simp
  then have in3: "K \<in> set (skipPatterns (adaptationRules
      (record_all [(t1, iv1, Dismissed, f1), (t2, iv2, Dismissed, f2), (t3, iv3, Dismissed, f3)] st)))"
    by simp
  from skip_record_all_mono [OF in3, of evs] assms(4) skipped_not_shown
  show ?thesis using in3 by blast
qed

theorem three_dismissals_suppress_witness:
  "extractPattern demo_iv = ''security:query = a + b''
   \<and> issuePattern demo_issue = ''security:query = a + b''
   \<and> severity demo_issue = Critical
   \<and> ''security:query = a + b'' \<in> set (skipPatterns (adaptationRules
        (record_all [(1, demo_iv, Dismissed, None), (2, demo_iv, Dismissed, None),
                     (3, demo_iv, Dismissed, None)] new_learning)))
   \<and> \<not> shouldShowIssue demo_issue
        (record_all [(4, demo_iv, Accepted, None)]
          (record_all [(1, demo_iv, Dismissed, None), (2, demo_iv, Dismissed, None),
                       (3, demo_iv, Dismissed, None)] new_learning))"
proof -
  have sev: "severity demo_issue = Critical"
    by (simp add: demo_issue_def)
  from three_dismissals_suppress [OF demo_pattern demo_pattern demo_pattern demo_issue_pattern,
      of 1 None 2 None 3 None new_learning "[(4, demo_iv, Accepted, None)]"]
  show ?thesis using demo_pattern demo_issue_pattern sev by blast
qed

lemma length_three_filters:
  "length fs = length (filter (\<lambda>f. action f = Accepted) fs)
             + length (filter (\<lambda>f. action f = Dismissed) fs)
             + length (filter (\<lambda>f. action f = Modified) fs)"
proof (induction fs)
  case Nil
  then show ?case by simp
next
  case (Cons f fs)
  then show ?case by (cases "action f") simp_all
qed

text \<open>
  Claim C10. After any sequence of \<open>recordFeedback\<close> calls, from any state, the total of
  \<open>getLearningStats\<close> is the sum of its accepted, dismissed and modified counts.
\<close>

theorem stats_total_is_sum:
  "totalFeedback (getLearningStats (record_all evs st))
     = stats_accepted (getLearningStats (record_all evs st))
     + stats_dismissed (getLearningStats (record_all evs st))
     + stats_modified (getLearningStats (record_all evs st))"
  using length_three_filters [of "feedbackHistory (record_all evs st)"]
  by (simp add: getLearningStats_def)

text \<open>
  Claim C9. A pattern key in \<open>skipPatterns\<close> stays there through every \<open>recordFeedback\<close>
  call. Accepting an intervention with that key adds the key to \<open>preferredPatterns\<close> and
  leaves it in \<open>skipPatterns\<close>; \<open>shouldShowIssue\<close> stays false for an issue with that key
  after any sequence of feedback events; \<open>resetLearningData\<close> empties \<open>skipPatterns\<close>.
\<close>

theorem suppression_is_permanent:
  assumes "K \<in> set (skipPatterns (adaptationRules st))"
  shows "K \<in> set (skipPatterns (adaptationRules (recordFeedback now iv act fb st)))
       \<and> (extractPattern iv = K \<longrightarrow>
            K \<in> set (preferredPatterns (adaptationRules (recordFeedback now iv Accepted fb st)))
          \<and> K \<in> set (skipPatterns (adaptationRules (recordFeedback now iv Accepted fb st))))
       \<and> (issuePattern issue = K \<longrightarrow> \<not> shouldShowIssue issue (record_all evs st))
       \<and> skipPatterns (adaptationRules (resetLearningData st)) = []"
  using assms skip_recordFeedback_mono [of K st] skip_record_all_mono [of K st evs]
    accept_prefers [of iv now fb st] skipped_not_shown [of issue "record_all evs st"]
  by (auto simp: resetLearningData_def)

theorem suppression_is_permanent_witness:
  "''security:query = a + b'' \<in> set (skipPatterns (adaptationRules (record_all three_dismissals new_learning)))
   \<and> ''security:query = a + b'' \<in> set (skipPatterns (adaptationRules
        (recordFeedback 4 demo_iv Accepted None (record_all three_dismissals new_learning))))
   \<and> ''security:query = a + b'' \<in> set (preferredPatterns (adaptationRules
        (recordFeedback 4 demo_iv Accepted None (record_all three_dismissals new_learning))))
   \<and> \<not> shouldShowIssue demo_issue
        (record_all [(4, demo_iv, Accepted, None), (5, demo_iv, Modified, None)]
          (record_all three_dismissals new_learning))
   \<and> skipPatterns (adaptationRules (resetLearningData (record_all three_dismissals new_learning))) = []"
proof -
  have h: "''security:query = a + b''
             \<in> set (skipPatterns (adaptationRules (record_all three_dismissals new_learning)))"
    by code_simp
  from suppression_is_permanent [OF h, of 4 demo_iv Accepted None demo_issue
      "[(4, demo_iv, Accepted, None), (5, demo_iv, Modified, None)]"]
  show ?thesis using h demo_pattern demo_issue_pattern by simp
qed











section \<open>The analyzer's rate limit\<close>

text \<open>
  Claim C3, as stated, fails: the rate limit is not per document. After a call for one
  document at time 100000, a call for a different document 5 seconds later yields nothing,
  although that document alone yields an issue.
\<close>

theorem cooldown_per_document_counterexample:
  "uri doc_a \<noteq> uri doc_b
   \<and> map type (fst (analyzeDocument True 100000 doc_a new_analyzer)) = [CodeSmell]
   \<and> map type (fst (analyzeDocument True 105000 doc_b new_analyzer)) = [CodeSmell]
   \<and> fst (analyzeDocument True 105000 doc_b (snd (analyzeDocument True 100000 doc_a new_analyzer))) = []"
  by code_simp

text \<open>
  Claim C3, amended. The analyzer has one window for all documents. After a call that was
  let through at time \<open>t0\<close>, a call for any document \<open>b\<close> (the same or another) less
  than 20 seconds later yields the empty list and leaves the state, and so the window, as
  it was; a call 20 seconds or more later yields the issues of \<open>b\<close> and starts a new
  window.
\<close>

theorem cooldown_is_global:
  assumes "scheme a = ''file''" and "scheme b = ''file''"
    and "20000 \<le> t0 - lastSuggestionTime st"
  shows "analyzeDocument True t0 a st = (analyze_by_language a, st\<lparr>lastSuggestionTime := t0\<rparr>)
       \<and> (t - t0 < 20000 \<longrightarrow>
            analyzeDocument True t b (st\<lparr>lastSuggestionTime := t0\<rparr>)
              = ([], st\<lparr>lastSuggestionTime := t0\<rparr>))
       \<and> (20000 \<le> t - t0 \<longrightarrow>
            analyzeDocument True t b (st\<lparr>lastSuggestionTime := t0\<rparr>)
              = (analyze_by_language b, st\<lparr>lastSuggestionTime := t\<rparr>))"
  using assms by (simp add: analyzeDocument_def)

theorem cooldown_is_global_witness:
  "scheme doc_a = ''file'' \<and> scheme doc_b = ''file''
   \<and> (20000 :: int) \<le> 100000 - lastSuggestionTime new_analyzer
   \<and> analyzeDocument True 100000 doc_a new_analyzer
        = (analyze_by_language doc_a, new_analyzer\<lparr>lastSuggestionTime := 100000\<rparr>)
   \<and> analyzeDocument True 105000 doc_b (new_analyzer\<lparr>lastSuggestionTime := 100000\<rparr>)
        = ([], new_analyzer\<lparr>lastSuggestionTime := 100000\<rparr>)
   \<and> analyzeDocument True 120000 doc_b (new_analyzer\<lparr>lastSuggestionTime := 100000\<rparr>)
        = (analyze_by_language doc_b, new_analyzer\<lparr>lastSuggestionTime := 120000\<rparr>)"
proof -
  have a: "scheme doc_a = ''file''" by (simp add: doc_a_def)
  have b: "scheme doc_b = ''file''" by (simp add: doc_b_def)
  have c: "(20000 :: int) \<le> 100000 - lastSuggestionTime new_analyzer"
    by (simp add: new_analyzer_def)
  have x: "analyzeDocument True 105000 doc_b (new_analyzer\<lparr>lastSuggestionTime := 100000\<rparr>)
        = ([], new_analyzer\<lparr>lastSuggestionTime := 100000\<rparr>)"
    using cooldown_is_global [OF a b c, of 105000] by simp
  have y: "analyzeDocument True 100000 doc_a new_analyzer
        = (analyze_by_language doc_a, new_analyzer\<lparr>lastSuggestionTime := 100000\<rparr>)"
    using cooldown_is_global [OF a b c, of 105000] by blast
  have z: "analyzeDocument True 120000 doc_b (new_analyzer\<lparr>lastSuggestionTime := 100000\<rparr>)
        = (analyze_by_language doc_b, new_analyzer\<lparr>lastSuggestionTime := 120000\<rparr>)"
    using cooldown_is_global [OF a b c, of 120000] by simp
  show ?thesis using a b c x y z by blast
qed

section \<open>Document changes\<close>

text \<open>
  Claim C4, as stated, fails. Three changes of one document within one second schedule one
  analysis, and it fires one second after the first change (101000), not after the last
  (101800); three changes 600 ms apart schedule two analyses.
\<close>

theorem debounce_trailing_counterexample:
  "map fst (timers (changes demo_cfg [100000, 100400, 100800] doc_a new_core)) = [101000]
   \<and> map fst (timers (changes demo_cfg [100000, 100600, 101200] doc_a new_core)) = [101000, 102200]"
  by code_simp

lemma changes_dropped:
  assumes "lastDocumentChange st (uri d) = Some t0" and "\<forall>t\<in>set ts. t - t0 < 1000"
  shows "changes cfg ts d st = st"
  using assms
proof (induction ts)
  case Nil
  then show ?case by simp
next
  case (Cons t ts)
  then have "onDocumentChange cfg t d st = st"
    by (simp add: onDocumentChange_def debounceDelay_def)
  with Cons show ?case by simp
qed

lemma changes_append:
  "changes cfg (ts @ us) d st = changes cfg us d (changes cfg ts d st)"
  by (induction ts arbitrary: st) simp_all

text \<open>
  Claim C4, amended. With the core active, outside focus mode and proactive interruptions
  enabled: a change of a document at \<open>t0\<close>, one second or more after the last tracked
  change of that document, is tracked and schedules one analysis at \<open>t0 + 1000\<close>. Every
  later change of the document less than one second after \<open>t0\<close> is dropped: it schedules
  nothing and leaves the pending analysis where it is. The next change one second or
  more after \<open>t0\<close> schedules a second analysis one second after itself.
\<close>

theorem change_throttle:
  assumes "isActive st" and "\<not> focusMode st" and "proactiveInterruptions cfg"
    and "1000 \<le> t0 - (case lastDocumentChange st (uri d) of None \<Rightarrow> 0 | Some v \<Rightarrow> v)"
    and "\<forall>t\<in>set ts. t - t0 < 1000"
  shows "timers (changes cfg (t0 # ts) d st) = timers st @ [(t0 + 1000, d)]
       \<and> (1000 \<le> t' - t0 \<longrightarrow>
            timers (changes cfg (t0 # ts @ [t']) d st)
              = timers st @ [(t0 + 1000, d), (t' + 1000, d)])"
proof -
  let ?s1 = "st\<lparr>lastDocumentChange := (lastDocumentChange st)(uri d \<mapsto> t0),
                 timers := timers st @ [(t0 + 1000, d)]\<rparr>"
  have first: "onDocumentChange cfg t0 d st = ?s1"
    using assms(1-4) by (simp add: onDocumentChange_def debounceDelay_def)
  have burst: "changes cfg ts d ?s1 = ?s1"
    using assms(5) by (intro changes_dropped [where ?t0.0 = t0]) simp_all
  have all: "changes cfg (t0 # ts) d st = ?s1"
    using first burst by simp
  have next_one: "1000 \<le> t' - t0 \<Longrightarrow>
      timers (onDocumentChange cfg t' d ?s1) = timers st @ [(t0 + 1000, d), (t' + 1000, d)]"
    using assms(1-3) by (simp add: onDocumentChange_def debounceDelay_def)
  have "changes cfg (t0 # ts @ [t']) d st = onDocumentChange cfg t' d ?s1"
    using changes_append [of cfg "t0 # ts" "[t']" d st] all by simp
  with all next_one show ?thesis by simp
qed

theorem change_throttle_witness:
  "isActive new_core \<and> \<not> focusMode new_core \<and> proactiveInterruptions demo_cfg
   \<and> timers (changes demo_cfg [100000, 100400, 100800] doc_a new_core) = [(101000, doc_a)]
   \<and> timers (changes demo_cfg [100000, 100400, 100800, 101000] doc_a new_core)
        = [(101000, doc_a), (102000, doc_a)]"
proof -
  have a: "isActive new_core" and b: "\<not> focusMode new_core"
    by (simp_all add: new_core_def)
  have c: "proactiveInterruptions demo_cfg" by (simp add: demo_cfg_def)
  have d: "(1000 :: int) \<le> 100000 - (case lastDocumentChange new_core (uri doc_a) of None \<Rightarrow> 0 | Some v \<Rightarrow> v)"
    by (simp add: new_core_def)
  have e: "\<forall>t\<in>set [100400, 100800 :: int]. t - 100000 < 1000" by simp
  from change_throttle [OF a b c d e, of 101000]
  show ?thesis using a b c by (simp add: new_core_def)
qed

section \<open>Reviews on demand\<close>

text \<open>
  Claim C5, as stated, fails: \<open>requestReview\<close> does not apply the frequency policy. With
  the frequency \<open>minimal\<close>, which keeps critical issues only, a review of a document with
  one issue of severity \<open>info\<close> returns an intervention for it, while the analysis cycle
  on the same document creates none.
\<close>

theorem review_frequency_counterexample:
  "interventionFrequency minimal_cfg = ''minimal''
   \<and> map ctx_severity (map iv_context
         (fst (requestReview demo_env minimal_cfg 100000 (Some doc_a) None new_core))) = [Info]
   \<and> frequency_filter ''minimal'' (analyze_by_language doc_a) = []
   \<and> interventions (core_analyzeDocument demo_env minimal_cfg 100000 doc_a new_core) = []"
  by code_simp

lemma map_snd_enumerate:
  "map (\<lambda>p. h (snd p)) (enumerate n xs) = map h xs"
  by (induction xs arbitrary: n) simp_all

text \<open>
  Claim C5, amended. \<open>requestReview\<close> makes one intervention of every issue that the
  analyzer returns for the document, in the analyzer's order, and appends them to the
  collection. Its result does not depend on the learning system, so neither the
  suppressed-pattern check nor the sensitivity check applies, and it does not depend on
  the settings \<open>interventionFrequency\<close> and \<open>maxSuggestionsPerMinute\<close> either.
\<close>

theorem review_is_unfiltered:
  "map iv_context (fst (requestReview env cfg now (Some doc) active st))
     = map convertToSuggestionContext
         (fst (analyzeDocument (proactiveInterruptions cfg) now doc (analyzer st)))
   \<and> interventions (snd (requestReview env cfg now (Some doc) active st))
     = interventions st @ fst (requestReview env cfg now (Some doc) active st)
   \<and> fst (requestReview env (cfg\<lparr>interventionFrequency := f, maxSuggestionsPerMinute := n\<rparr>)
            now (Some doc) active (st\<lparr>learningSystem := ls\<rparr>))
     = fst (requestReview env cfg now (Some doc) active st)"
  by (simp add: requestReview_def Let_def case_prod_unfold comp_def map_snd_enumerate)

theorem review_is_unfiltered_witness:
  "map iv_context (fst (requestReview demo_env minimal_cfg 100000 (Some doc_a) None new_core))
     = map convertToSuggestionContext (analyze_by_language doc_a)
   \<and> interventions (snd (requestReview demo_env minimal_cfg 100000 (Some doc_a) None new_core))
     = fst (requestReview demo_env minimal_cfg 100000 (Some doc_a) None new_core)
   \<and> fst (requestReview demo_env
            (minimal_cfg\<lparr>interventionFrequency := ''balanced'', maxSuggestionsPerMinute := 0\<rparr>)
            100000 (Some doc_a) None
            (new_core\<lparr>learningSystem := record_all three_dismissals new_learning\<rparr>))
     = fst (requestReview demo_env minimal_cfg 100000 (Some doc_a) None new_core)"
proof -
  have a: "fst (analyzeDocument (proactiveInterruptions minimal_cfg) 100000 doc_a (analyzer new_core))
             = analyze_by_language doc_a"
    by code_simp
  have b: "interventions new_core = []"
    by (simp add: new_core_def)
  from review_is_unfiltered [where env = demo_env and cfg = minimal_cfg and now = 100000
      and doc = doc_a and active = None and st = new_core and f = "''balanced''" and n = 0
      and ls = "record_all three_dismissals new_learning"]
  show ?thesis by (simp add: a b)
qed

section \<open>Accepting and dismissing\<close>

lemma find_update_first:
  assumes "\<And>i. iv_id (f i) = iv_id i"
  shows "find (\<lambda>i. iv_id i = ident) (update_first ident f xs)
           = map_option f (find (\<lambda>i. iv_id i = ident) xs)"
  using assms by (induction xs) simp_all

lemma recordFeedback_history:
  "feedbackHistory (recordFeedback now iv act fb st) =
     (let h = feedbackHistory st @
                [\<lparr>interventionId = iv_id iv, action = act, feedback = fb, timestamp = now,
                  fb_issueType = issueType (iv_context iv),
                  personality = take 50 (resp_message (response iv))\<rparr>]
      in if length h > 1000 then drop (length h - 1000) h else h)"
  by (simp add: recordFeedback_def updateAdaptationRules_def updateLearningPatterns_def Let_def)

lemma recordFeedback_last:
  "action (last (feedbackHistory (recordFeedback now iv act fb st))) = act
   \<and> interventionId (last (feedbackHistory (recordFeedback now iv act fb st))) = iv_id iv
   \<and> length (feedbackHistory (recordFeedback now iv act fb st))
        = min 1000 (Suc (length (feedbackHistory st)))"
  by (simp add: recordFeedback_history Let_def)

text \<open>
  Claim C2, as stated, fails: the flags can both be set. An intervention made by a review
  is accepted and then dismissed; both calls set their flag and both forward a record to
  the learning system.
\<close>

theorem flags_exclusive_counterexample:
  "map iv_id (interventions reviewed_core) = [''100000-0.5'']
   \<and> map accepted (interventions reviewed_core) = [None]
   \<and> map dismissed (interventions reviewed_core) = [None]
   \<and> map accepted (interventions
        (dismissIntervention 100002 ''100000-0.5'' None
          (acceptIntervention 100001 ''100000-0.5'' reviewed_core))) = [Some True]
   \<and> map dismissed (interventions
        (dismissIntervention 100002 ''100000-0.5'' None
          (acceptIntervention 100001 ''100000-0.5'' reviewed_core))) = [Some True]
   \<and> map action (feedbackHistory (learningSystem
        (dismissIntervention 100002 ''100000-0.5'' None
          (acceptIntervention 100001 ''100000-0.5'' reviewed_core)))) = [Accepted, Dismissed]"
  by code_simp

text \<open>
  Claim C2, amended. \<open>acceptIntervention\<close> and \<open>dismissIntervention\<close> change nothing
  when no intervention has the id. When one has, whatever its flags are, the call sets
  its own flag on the first intervention with that id, leaves the other flag as it was,
  and forwards one record with its action to \<open>recordFeedback\<close>, which makes it the
  last of a history of no more than 1000 records.
\<close>

theorem resolve_is_unguarded:
  "(find (\<lambda>i. iv_id i = ident) (interventions st) = None \<longrightarrow>
      dismissIntervention now ident fb st = st \<and> acceptIntervention now ident st = st)
   \<and> (find (\<lambda>i. iv_id i = ident) (interventions st) = Some iv \<longrightarrow>
        find (\<lambda>i. iv_id i = ident) (interventions (dismissIntervention now ident fb st))
          = Some (iv\<lparr>dismissed := Some True\<rparr>)
      \<and> find (\<lambda>i. iv_id i = ident) (interventions (acceptIntervention now ident st))
          = Some (iv\<lparr>accepted := Some True\<rparr>)
      \<and> learningSystem (dismissIntervention now ident fb st)
          = recordFeedback now (iv\<lparr>dismissed := Some True\<rparr>) Dismissed fb (learningSystem st)
      \<and> learningSystem (acceptIntervention now ident st)
          = recordFeedback now (iv\<lparr>accepted := Some True\<rparr>) Accepted None (learningSystem st)
      \<and> action (last (feedbackHistory (learningSystem (dismissIntervention now ident fb st))))
          = Dismissed
      \<and> action (last (feedbackHistory (learningSystem (acceptIntervention now ident st))))
          = Accepted
      \<and> length (feedbackHistory (learningSystem (dismissIntervention now ident fb st)))
          = min 1000 (Suc (length (feedbackHistory (learningSystem st))))
      \<and> length (feedbackHistory (learningSystem (acceptIntervention now ident st)))
          = min 1000 (Suc (length (feedbackHistory (learningSystem st)))))"
  by (simp add: dismissIntervention_def acceptIntervention_def find_update_first
      recordFeedback_last)

theorem resolve_is_unguarded_witness:
  "find (\<lambda>i. iv_id i = ''100000-0.5'') (interventions reviewed_core) = Some reviewed_iv
   \<and> find (\<lambda>i. iv_id i = ''9'') (interventions reviewed_core) = None
   \<and> dismissIntervention 100001 ''9'' None reviewed_core = reviewed_core
   \<and> acceptIntervention 100001 ''9'' reviewed_core = reviewed_core
   \<and> find (\<lambda>i. iv_id i = ''100000-0.5'')
        (interventions (dismissIntervention 100001 ''100000-0.5'' None reviewed_core))
        = Some (reviewed_iv\<lparr>dismissed := Some True\<rparr>)
   \<and> length (feedbackHistory (learningSystem
        (dismissIntervention 100001 ''100000-0.5'' None reviewed_core))) = 1"
proof -
  have a: "find (\<lambda>i. iv_id i = ''100000-0.5'') (interventions reviewed_core) = Some reviewed_iv"
    by code_simp
  have b: "find (\<lambda>i. iv_id i = ''9'') (interventions reviewed_core) = None"
    by code_simp
  have h: "length (feedbackHistory (learningSystem reviewed_core)) = 0"
    by code_simp
  from resolve_is_unguarded [of "''9''" reviewed_core 100001 None reviewed_iv] b
  have c: "dismissIntervention 100001 ''9'' None reviewed_core = reviewed_core
         \<and> acceptIntervention 100001 ''9'' reviewed_core = reviewed_core"
    by blast
  from resolve_is_unguarded [of "''100000-0.5''" reviewed_core 100001 None reviewed_iv] a
  have d: "find (\<lambda>i. iv_id i = ''100000-0.5'')
        (interventions (dismissIntervention 100001 ''100000-0.5'' None reviewed_core))
        = Some (reviewed_iv\<lparr>dismissed := Some True\<rparr>)
      \<and> length (feedbackHistory (learningSystem
          (dismissIntervention 100001 ''100000-0.5'' None reviewed_core)))
          = min 1000 (Suc (length (feedbackHistory (learningSystem reviewed_core))))"
    by blast
  show ?thesis using a b c d by (simp add: h)
qed

section \<open>Nested loops\<close>

lemma nested_scan_iff:
  "nested_scan ls bc ff \<longleftrightarrow>
     (\<exists>j<length ls. loop_open (ls ! j) \<and> (ff \<or> (\<exists>k<j. loop_open (ls ! k)))
        \<and> bc + depth (take j ls) = 1)"
proof (induction ls arbitrary: bc ff)
  case Nil
  then show ?case by simp
next
  case (Cons l ls)
  show ?case
  proof (cases "loop_open l")
    case True
    then show ?thesis
      by (simp add: Cons.IH Ex_less_Suc2 depth_def add.assoc) blast
  next
    case False
    then show ?thesis
      by (simp add: Cons.IH Ex_less_Suc2 depth_def add.assoc)
  qed
qed

lemma filter_perf_js_line:
  "map line (filter (\<lambda>x. type x = Performance \<and> severity x = Warning) (js_line_issues src path i l))
     = (if loop_open l \<and> hasNestedLoop src i then [i + 1] else [])"
  by (simp add: js_line_issues_def Let_def)

lemma nested_flags_concat:
  "nested_flags src path =
     concat (map (\<lambda>(i, l). if loop_open l \<and> hasNestedLoop src i then [i + 1] else [])
               (enumerate 0 (split_nl src)))"
  by (simp add: nested_flags_def analyzeJavaScript_def filter_concat map_concat comp_def
      case_prod_unfold filter_perf_js_line)

lemma nested_flags_mem:
  "i + 1 \<in> set (nested_flags src path) \<longleftrightarrow>
     i < length (split_nl src) \<and> loop_open (split_nl src ! i) \<and> hasNestedLoop src i"
  by (auto simp: nested_flags_concat in_set_enumerate_eq split: if_splits)

lemma nested_flags_elem:
  "k \<in> set (nested_flags src path) \<Longrightarrow> \<exists>i. k = i + 1"
  by (auto simp: nested_flags_concat split: if_splits)

lemma hasNestedLoop_iff:
  assumes "i < length (split_nl src)" and "loop_open (split_nl src ! i)"
  shows "hasNestedLoop src i \<longleftrightarrow>
           (\<exists>j. i < j \<and> j < min (i + 20) (length (split_nl src)) \<and> loop_open (split_nl src ! j)
                \<and> depth (take (j - i) (drop i (split_nl src))) = 1)"
proof -
  let ?ls = "split_nl src"
  let ?w = "take 20 (drop i ?ls)"
  have len: "length ?w = min 20 (length ?ls - i)" by simp
  have nthw: "j' < length ?w \<Longrightarrow> ?w ! j' = ?ls ! (i + j')" for j'
    using assms(1) by simp
  have w0: "loop_open (?w ! 0)" using assms by simp
  have takew: "j' < length ?w \<Longrightarrow> take j' ?w = take j' (drop i ?ls)" for j'
    by (auto simp: min_def split: if_splits)
  have "hasNestedLoop src i \<longleftrightarrow>
      (\<exists>j'<length ?w. loop_open (?w ! j') \<and> (\<exists>k<j'. loop_open (?w ! k)) \<and> depth (take j' ?w) = 1)"
    by (simp add: hasNestedLoop_def nested_scan_iff)
  also have "\<dots> \<longleftrightarrow> (\<exists>j'<length ?w. 0 < j' \<and> loop_open (?w ! j') \<and> depth (take j' ?w) = 1)"
    using w0 by (metis not_less_zero gr0I)
  also have "\<dots> \<longleftrightarrow> (\<exists>j'<length ?w. 0 < j' \<and> loop_open (?ls ! (i + j'))
                      \<and> depth (take j' (drop i ?ls)) = 1)"
    using nthw takew by (metis (no_types, lifting))
  also have "\<dots> \<longleftrightarrow> (\<exists>j. i < j \<and> j < min (i + 20) (length ?ls) \<and> loop_open (?ls ! j)
                \<and> depth (take (j - i) (drop i ?ls)) = 1)"
  proof
    assume "\<exists>j'<length ?w. 0 < j' \<and> loop_open (?ls ! (i + j')) \<and> depth (take j' (drop i ?ls)) = 1"
    then obtain j' where "j' < length ?w" "0 < j'" "loop_open (?ls ! (i + j'))"
      "depth (take j' (drop i ?ls)) = 1" by blast
    then show "\<exists>j. i < j \<and> j < min (i + 20) (length ?ls) \<and> loop_open (?ls ! j)
                \<and> depth (take (j - i) (drop i ?ls)) = 1"
      by (intro exI [of _ "i + j'"]) (auto simp: len)
  next
    assume "\<exists>j. i < j \<and> j < min (i + 20) (length ?ls) \<and> loop_open (?ls ! j)
                \<and> depth (take (j - i) (drop i ?ls)) = 1"
    then obtain j where "i < j" "j < min (i + 20) (length ?ls)" "loop_open (?ls ! j)"
      "depth (take (j - i) (drop i ?ls)) = 1" by blast
    then show "\<exists>j'<length ?w. 0 < j' \<and> loop_open (?ls ! (i + j')) \<and> depth (take j' (drop i ?ls)) = 1"
      by (intro exI [of _ "j - i"]) (auto simp: len)
  qed
  finally show ?thesis .
qed

lemma two_matches:
  assumes "i < j" and "j < length ls" and "P (ls ! i)" and "P (ls ! j)"
  shows "2 \<le> length (filter P ls)"
proof -
  have split: "ls = take j ls @ drop j ls" by simp
  have "ls ! i \<in> set (take j ls)"
    using assms(1,2) by (metis in_set_conv_nth length_take min.absorb2 less_imp_le nth_take)
  then have a: "filter P (take j ls) \<noteq> []"
    using assms(3) by (auto simp: filter_empty_conv)
  have "ls ! j \<in> set (drop j ls)"
    using assms(2) by (metis Cons_nth_drop_Suc list.set_intros(1))
  then have b: "filter P (drop j ls) \<noteq> []"
    using assms(4) by (auto simp: filter_empty_conv)
  have "length (filter P ls) = length (filter P (take j ls)) + length (filter P (drop j ls))"
    by (metis split filter_append length_append)
  moreover have "1 \<le> length (filter P (take j ls))" using a by (cases "filter P (take j ls)") auto
  moreover have "1 \<le> length (filter P (drop j ls))" using b by (cases "filter P (drop j ls)") auto
  ultimately show ?thesis by linarith
qed

lemma single_loop_not_flagged:
  assumes "length (filter loop_open (split_nl src)) \<le> 1"
  shows "nested_flags src path = []"
proof (rule ccontr)
  assume "nested_flags src path \<noteq> []"
  then obtain k where k: "k \<in> set (nested_flags src path)"
    by (cases "nested_flags src path") auto
  then obtain i where "k = i + 1" using nested_flags_elem by blast
  with k have i: "i < length (split_nl src)" "loop_open (split_nl src ! i)" "hasNestedLoop src i"
    using nested_flags_mem [of i src path] by auto
  then obtain j where "i < j" "j < min (i + 20) (length (split_nl src))" "loop_open (split_nl src ! j)"
    using hasNestedLoop_iff [of i src] by blast
  then have "2 \<le> length (filter loop_open (split_nl src))"
    using two_matches [of i j "split_nl src" loop_open] i by simp
  with assms show False by simp
qed

text \<open>
  Claim C7. The line with index \<open>i\<close> is flagged \<open>performance\<close>/\<open>warning\<close> exactly when
  it opens a loop and, among the 20 lines that start with it, a later line \<open>j\<close> opens a
  loop while the running brace depth over the lines from \<open>i\<close> up to, not including,
  \<open>j\<close> is exactly 1. A document with at most one loop-open line is never flagged by the
  rule, and in the sample text of two nested loops the outer line, line 1, is the one
  that is flagged.
\<close>

theorem nested_loop_rule:
  "(i + 1 \<in> set (nested_flags src path) \<longleftrightarrow>
      i < length (split_nl src) \<and> loop_open (split_nl src ! i)
      \<and> (\<exists>j. i < j \<and> j < min (i + 20) (length (split_nl src)) \<and> loop_open (split_nl src ! j)
             \<and> depth (take (j - i) (drop i (split_nl src))) = 1))
   \<and> (length (filter loop_open (split_nl src)) \<le> 1 \<longrightarrow> nested_flags src path = [])
   \<and> nested_flags js_nested path = [1]"
proof -
  have a: "i + 1 \<in> set (nested_flags src path) \<longleftrightarrow>
      i < length (split_nl src) \<and> loop_open (split_nl src ! i)
      \<and> (\<exists>j. i < j \<and> j < min (i + 20) (length (split_nl src)) \<and> loop_open (split_nl src ! j)
             \<and> depth (take (j - i) (drop i (split_nl src))) = 1)"
    using nested_flags_mem [of i src path] hasNestedLoop_iff [of i src] by blast
  have c: "nested_flags js_nested path = [1]"
    unfolding nested_flags_concat by code_simp
  show ?thesis using a c single_loop_not_flagged [of src path] by blast
qed

theorem nested_loop_rule_witness:
  "split_nl js_nested = [''for (a) {'', '' for (b) {'', ''}'', ''}'']
   \<and> loop_open ''for (a) {'' \<and> loop_open '' for (b) {''
   \<and> depth [''for (a) {''] = 1
   \<and> 1 \<in> set (nested_flags js_nested ''a.js'')
   \<and> length (filter loop_open (split_nl ''for (a) {}'')) \<le> 1
   \<and> nested_flags ''for (a) {}'' ''a.js'' = []"
proof -
  have a: "split_nl js_nested = [''for (a) {'', '' for (b) {'', ''}'', ''}'']" by code_simp
  have b: "loop_open ''for (a) {'' \<and> loop_open '' for (b) {''" by code_simp
  have c: "depth [''for (a) {''] = 1" by code_simp
  have d: "length (filter loop_open (split_nl ''for (a) {}'')) \<le> 1" by code_simp
  have e: "\<exists>j. 0 < j \<and> j < min (0 + 20) (length (split_nl js_nested)) \<and> loop_open (split_nl js_nested ! j)
             \<and> depth (take (j - 0) (drop 0 (split_nl js_nested))) = 1"
    using b c by (intro exI [of _ 1]) (simp add: a)
  from nested_loop_rule [of 0 js_nested "''a.js''"] a b e
  have f: "1 \<in> set (nested_flags js_nested ''a.js'')" by simp
  from nested_loop_rule [of 0 "''for (a) {}''" "''a.js''"] d
  have g: "nested_flags ''for (a) {}'' ''a.js'' = []" by blast
  show ?thesis using a b c d f g by blast
qed

section \<open>The Python rule on type hints\<close>

declare rems.simps(5) [simp del]

lemma rems_suffix: "t \<in> set (rems r s) \<Longrightarrow> \<exists>p. s = p @ t"
proof (induction r s arbitrary: t rule: rems.induct)
  case (1 s)
  then show ?case by simp
next
  case (2 c s)
  then show ?case by (cases s) (auto split: if_splits)
next
  case (3 a b s)
  from "3.prems" obtain u where u: "u \<in> set (rems a s)" and t: "t \<in> set (rems b u)"
    by auto
  from "3.IH"(1) [OF u] obtain p where "s = p @ u" by blast
  moreover from "3.IH"(2) [OF u t] obtain q where "u = q @ t" by blast
  ultimately have "s = (p @ q) @ t" by simp
  then show ?case by blast
next
  case (4 a b s)
  then show ?case by auto
next
  case (5 a s)
  from "5.prems" have "t \<in> set (s # concat (map (\<lambda>u. if length u < length s
      then rems (Star a) u else []) (rems a s)))"
    by (subst (asm) rems.simps(5))
  then consider "t = s"
    | u where "u \<in> set (rems a s)" "length u < length s" "t \<in> set (rems (Star a) u)"
    by (auto simp del: rems.simps(5) split: if_splits)
  then show ?case
  proof cases
    case 1
    then show ?thesis by simp
  next
    case 2
    from "5.IH"(1) [OF 2(1)] obtain p where "s = p @ u" by blast
    moreover from "5.IH"(2) [OF 2(1) 2(2) 2(3)] obtain q where "u = q @ t" by blast
    ultimately have "s = (p @ q) @ t" by simp
    then show ?thesis by blast
  qed
qed

lemma seqs_last_char:
  assumes "rs \<noteq> []" and "last rs = Ch c" and "rems (seqs rs) s \<noteq> []"
  shows "c \<in> set s"
  using assms
proof (induction rs arbitrary: s)
  case Nil
  then show ?case by simp
next
  case (Cons r rs)
  show ?case
  proof (cases "rs = []")
    case True
    with Cons.prems show ?thesis
      by (cases s) (auto simp: Ch_def split: if_splits)
  next
    case False
    from Cons.prems(3) obtain u where u: "u \<in> set (rems r s)" and ne: "rems (seqs rs) u \<noteq> []"
      by auto
    from Cons.IH [OF False _ ne] Cons.prems(2) False have "c \<in> set u" by simp
    moreover from rems_suffix [OF u] obtain p where "s = p @ u" by blast
    ultimately show ?thesis by simp
  qed
qed

lemma str_includes_single: "str_includes [c] s \<longleftrightarrow> c \<in> set s"
  by (induction s) auto

lemma def_line_has_colon:
  assumes "re_match_at re_def l"
  shows "str_includes '':'' l"
proof -
  let ?rs = "[Str ''def'', Plus (Atom Space), Plus (Atom WordCh), Sp,
              Ch CHR ''('', Star (Atom (NoneOf '')'')), Ch CHR '')'', Sp, Ch CHR '':'']"
  have "rems (seqs ?rs) l \<noteq> []"
    using assms unfolding re_match_at_def re_def_def .
  moreover have "?rs \<noteq> []" and "last ?rs = Ch CHR '':''"
    by simp_all
  ultimately have "CHR '':'' \<in> set l"
    using seqs_last_char [of ?rs "CHR '':''" l] by blast
  then show ?thesis
    by (simp only: str_includes_single)
qed

lemma py_line_never_style: "issue \<in> set (py_line_issues path i l) \<Longrightarrow> type issue \<noteq> Style"
  using def_line_has_colon [of l]
  by (auto simp: py_line_issues_def Let_def split: if_splits)

lemma analyzePython_never_style:
  "issue \<in> set (analyzePython src path) \<Longrightarrow> type issue \<noteq> Style"
  by (auto simp: analyzePython_def dest: py_line_never_style)

text \<open>
  Claim C6 fails on the code. The line \<open>def foo(x):\<close> matches the pattern for a function
  definition and has no \<open>->\<close>, and \<open>analyzePython\<close> reports nothing for it: the rule
  also requires that the line has no colon, which no line matching the pattern
  satisfies (\<open>analyzePython_never_style\<close>).
\<close>

theorem python_missing_annotation_unreported:
  "re_match_at re_def ''def foo(x):''
   \<and> \<not> str_includes ''->'' ''def foo(x):''
   \<and> analyzePython ''def foo(x):'' ''a.py'' = []"
  by code_simp

end
